theory Spec2Isabelle
  imports Main "HOL-Library.Multiset"
begin

section \<open>Shared conventions\<close>

text \<open>
  The two source files, \<^verbatim>\<open>BalancedVectors.py\<close> and \<^verbatim>\<open>Fuglede.py\<close>, compute over the
  prime field \<open>Z_p\<close> that Sage's \<^verbatim>\<open>FiniteField(p)\<close> provides. A field element is modelled by
  its representative in \<open>{0, ..., p - 1}\<close>, a natural number; Python's exceptions are
  values of the type \<open>error\<close>, and a call that may raise returns \<open>error + 'a\<close>.
  \<open>InvalidInput\<close> is the error of the specification's section 7; no line of the source
  raises it.
\<close>

datatype error = AssertionError | ZeroDivisionError | ValueError | IndexError | KeyError | TypeError
  | InvalidInput

text \<open>\<^verbatim>\<open>self.field(i)\<close>: the integer \<open>i\<close> coerced into \<open>Z_p\<close>.\<close>

definition field_of :: "nat \<Rightarrow> nat \<Rightarrow> nat" where
  "field_of p i = i mod p"

text \<open>\<^verbatim>\<open>a - b\<close> in \<open>Z_p\<close>, on representatives.\<close>

definition field_sub :: "nat \<Rightarrow> nat \<Rightarrow> nat \<Rightarrow> nat" where
  "field_sub p a b = (a + (p - b mod p)) mod p"

text \<open>\<^verbatim>\<open>xs[i]\<close> for a non-negative index: IndexError when \<open>i\<close> is out of range.\<close>

definition subscript :: "'a list \<Rightarrow> nat \<Rightarrow> error + 'a" where
  "subscript xs i = (if i < length xs then Inr (xs ! i) else Inl IndexError)"

section \<open>BalancedVectors.py\<close>

text \<open>
  The instance state of \<^verbatim>\<open>class BalancedVectors\<close>. The field \<^verbatim>\<open>self.field\<close> is
  determined by \<open>modulus\<close> and is not stored. (\<open>size\<close> and \<open>quotient\<close> are constants of HOL, hence the suffix.)
\<close>

record BalancedVectors =
  size_bv :: nat
  modulus :: nat
  quotient_bv :: nat

text \<open>
  \<^verbatim>\<open>__init__\<close> (lines 16-21). \<^verbatim>\<open>size % modulus\<close> raises ZeroDivisionError for a zero modulus
  before the assertion can compare anything; the assertion comes next; only then is
  \<^verbatim>\<open>FiniteField(modulus)\<close> called. Which orders Sage's constructor accepts is not
  part of this repository: it is the parameter \<open>field_ok\<close>, and a refused order is a
  ValueError. Under the assertion \<^verbatim>\<open>self.size/self.modulus\<close> is exact, so integer and
  true division agree on it.
\<close>

definition BalancedVectors_init :: "(nat \<Rightarrow> bool) \<Rightarrow> nat \<Rightarrow> nat \<Rightarrow> error + BalancedVectors" where
  "BalancedVectors_init field_ok sz m =
     (if m = 0 then Inl ZeroDivisionError
      else if sz mod m \<noteq> 0 then Inl AssertionError
      else if \<not> field_ok m then Inl ValueError
      else Inr \<lparr>size_bv = sz, modulus = m, quotient_bv = sz div m\<rparr>)"

text \<open>A field provider that accepts exactly the prime orders, for concrete runs.\<close>

definition prime_order :: "nat \<Rightarrow> bool" where
  "prime_order n = (1 < n \<and> list_all (\<lambda>d. n mod d \<noteq> 0) [2..<n])"

text \<open>
  \<^verbatim>\<open>is_balanced\<close> (lines 24-29): the loop over \<^verbatim>\<open>range(self.modulus)\<close> returns False at the
  first value whose count differs from the quotient, and True when the range is exhausted.
  \<^verbatim>\<open>V.count(i)\<close> is \<open>count_list\<close>. Nothing in the body raises.
\<close>

fun is_balanced_loop :: "nat list \<Rightarrow> nat \<Rightarrow> nat list \<Rightarrow> bool" where
  "is_balanced_loop V q [] = True"
| "is_balanced_loop V q (i # rest) =
     (if count_list V i \<noteq> q then False else is_balanced_loop V q rest)"

definition is_balanced :: "BalancedVectors \<Rightarrow> nat list \<Rightarrow> bool" where
  "is_balanced S vec = is_balanced_loop vec (quotient_bv S) [0..<modulus S]"

text \<open>
  \<^verbatim>\<open>itertools.permutations(pool, r)\<close>: the \<open>r\<close>-length arrangements of the positions of
  \<open>pool\<close>, in lexicographic order of the positions; equal values at different positions
  give equal tuples more than once. Nothing is produced when \<open>r\<close> exceeds the length.
\<close>

definition remove_nth :: "nat \<Rightarrow> 'a list \<Rightarrow> 'a list" where
  "remove_nth i xs = take i xs @ drop (Suc i) xs"

fun permutations :: "'a list \<Rightarrow> nat \<Rightarrow> 'a list list" where
  "permutations pool 0 = [[]]"
| "permutations pool (Suc r) =
     concat (map (\<lambda>i. map ((#) (pool ! i)) (permutations (remove_nth i pool) r))
                 [0..<length pool])"

text \<open>
  \<^verbatim>\<open>elements\<close> (lines 32-37): \<open>lis\<close> is the list of tuples seen so far; a permutation
  not in it is appended to it and yielded. The result is the sequence of yielded tuples.
\<close>

fun elements_loop :: "nat list list \<Rightarrow> nat list list \<Rightarrow> nat list list" where
  "elements_loop lis [] = []"
| "elements_loop lis (permutation # rest) =
     (if permutation \<notin> set lis
      then permutation # elements_loop (lis @ [permutation]) rest
      else elements_loop lis rest)"

definition elements :: "BalancedVectors \<Rightarrow> nat list list" where
  "elements S =
     elements_loop []
       (permutations (map (field_of (modulus S)) [0..<size_bv S]) (size_bv S))"


text \<open>
  \<^verbatim>\<open>difference\<close> (lines 45-54). The integer 0 is the unbalanced sentinel; a tuple never
  compares equal to it, so an argument is either the sentinel or a tuple. The list
  comprehension reads \<^verbatim>\<open>vec0[i]\<close> and \<^verbatim>\<open>vec1[i]\<close> for every \<open>i\<close> in \<^verbatim>\<open>range(self.size)\<close>
  and raises IndexError on a tuple that is too short.
\<close>

datatype vec = Unbalanced | Vec "nat list"

fun difference_loop :: "nat \<Rightarrow> nat list \<Rightarrow> nat list \<Rightarrow> nat list \<Rightarrow> error + nat list" where
  "difference_loop p vec0 vec1 [] = Inr []"
| "difference_loop p vec0 vec1 (i # rest) =
     (case subscript vec0 i of
        Inl e \<Rightarrow> Inl e
      | Inr a \<Rightarrow>
          (case subscript vec1 i of
             Inl e \<Rightarrow> Inl e
           | Inr b \<Rightarrow>
               (case difference_loop p vec0 vec1 rest of
                  Inl e \<Rightarrow> Inl e
                | Inr ds \<Rightarrow> Inr (field_sub p a b # ds))))"

fun difference :: "BalancedVectors \<Rightarrow> vec \<Rightarrow> vec \<Rightarrow> error + vec" where
  "difference S Unbalanced vec1 = Inr Unbalanced"
| "difference S (Vec v0) Unbalanced = Inr Unbalanced"
| "difference S (Vec v0) (Vec v1) =
     (case difference_loop (modulus S) v0 v1 [0..<size_bv S] of
        Inl e \<Rightarrow> Inl e
      | Inr dif \<Rightarrow> if is_balanced S dif then Inr (Vec dif) else Inr Unbalanced)"

text \<open>
  The specification's notions, for comparison with the code: a balanced vector has length
  \<open>size\<close>, entries in \<open>{0, ..., modulus - 1}\<close>, and every value \<open>quotient\<close> times; the
  component-wise subtraction of two vectors; and the balance checker of the
  specification's section 4.1, which rejects a sequence of the wrong length.
\<close>

definition balanced_vector :: "BalancedVectors \<Rightarrow> nat list \<Rightarrow> bool" where
  "balanced_vector S v =
     (length v = size_bv S \<and> list_all (\<lambda>x. x < modulus S) v
      \<and> list_all (\<lambda>i. count_list v i = quotient_bv S) [0..<modulus S])"

definition is_balanced_spec :: "nat \<Rightarrow> nat \<Rightarrow> nat list \<Rightarrow> error + bool" where
  "is_balanced_spec m q v =
     (if length v \<noteq> m * q then Inl InvalidInput
      else Inr (list_all (\<lambda>i. count_list v i = q) [0..<m]))"

definition componentwise_sub :: "nat \<Rightarrow> nat list \<Rightarrow> nat list \<Rightarrow> nat list" where
  "componentwise_sub p v0 v1 = map2 (field_sub p) v0 v1"

section \<open>Fuglede.py\<close>

text \<open>
  Sage's matrices and vectors know their base field and their shape. A matrix is its base
  field's order, its shape and its rows; a vector is its base field's order and its
  coordinates.
\<close>

record vector =
  vbase :: nat
  coords :: "nat list"

record matrix =
  base :: nat
  nrows :: nat
  ncols :: nat
  entries :: "nat list list"

text \<open>
  What the module takes from Sage without defining it: whether \<^verbatim>\<open>FiniteField(p)\<close>
  exists, the order in which \<^verbatim>\<open>MatrixSpace(GF(p), r, c)\<close> is iterated, the row-reduced
  echelon form and the rank. They are parameters of the model.
\<close>

record sage =
  FiniteField_ok :: "nat \<Rightarrow> bool"
  MatrixSpace :: "nat \<Rightarrow> nat \<Rightarrow> nat \<Rightarrow> matrix list"
  rref :: "matrix \<Rightarrow> matrix"
  rank :: "matrix \<Rightarrow> nat"

definition bind_err :: "error + 'a \<Rightarrow> ('a \<Rightarrow> error + 'b) \<Rightarrow> error + 'b" where
  "bind_err m f = (case m of Inl e \<Rightarrow> Inl e | Inr x \<Rightarrow> f x)"

text \<open>\<^verbatim>\<open>M.transpose()\<close>, \<^verbatim>\<open>M[i]\<close>, \<^verbatim>\<open>M.columns()\<close>, \<^verbatim>\<open>Matrix(v)\<close> and \<^verbatim>\<open>0 * v\<close>.\<close>

definition transpose_matrix :: "matrix \<Rightarrow> matrix" where
  "transpose_matrix M =
     \<lparr>base = base M, nrows = ncols M, ncols = nrows M,
      entries = map (\<lambda>j. map (\<lambda>r. r ! j) (entries M)) [0..<ncols M]\<rparr>"

definition row_of :: "matrix \<Rightarrow> nat \<Rightarrow> error + vector" where
  "row_of M i =
     bind_err (subscript (entries M) i) (\<lambda>r. Inr \<lparr>vbase = base M, coords = r\<rparr>)"

definition columns :: "matrix \<Rightarrow> vector list" where
  "columns M = map (\<lambda>r. \<lparr>vbase = base M, coords = r\<rparr>) (entries (transpose_matrix M))"

definition Matrix :: "vector \<Rightarrow> matrix" where
  "Matrix v = \<lparr>base = vbase v, nrows = 1, ncols = length (coords v), entries = [coords v]\<rparr>"

definition zero_times :: "vector \<Rightarrow> vector" where
  "zero_times v = \<lparr>vbase = vbase v, coords = map (\<lambda>x. 0) (coords v)\<rparr>"

text \<open>
  \<^verbatim>\<open>row0 - row1\<close> on vectors and \<^verbatim>\<open>A * B\<close> on matrices; Sage raises TypeError when the
  parents do not fit.
\<close>

definition vector_sub :: "vector \<Rightarrow> vector \<Rightarrow> error + vector" where
  "vector_sub row0 row1 =
     (if vbase row0 = vbase row1 \<and> length (coords row0) = length (coords row1)
      then Inr \<lparr>vbase = vbase row0,
                coords = map2 (field_sub (vbase row0)) (coords row0) (coords row1)\<rparr>
      else Inl TypeError)"

definition matrix_mul :: "matrix \<Rightarrow> matrix \<Rightarrow> error + matrix" where
  "matrix_mul A B =
     (if base A = base B \<and> ncols A = nrows B
      then Inr \<lparr>base = base A, nrows = nrows A, ncols = ncols B,
                entries =
                  map (\<lambda>ra. map (\<lambda>j. sum_list (map (\<lambda>k. ra ! k * (entries B ! k ! j))
                                                  [0..<ncols A]) mod base A)
                                [0..<ncols B])
                      (entries A)\<rparr>
      else Inl TypeError)"

text \<open>\<^verbatim>\<open>xs.index(x)\<close>: the first position of \<open>x\<close>, ValueError when there is none.\<close>

fun index_of :: "'a list \<Rightarrow> 'a \<Rightarrow> error + nat" where
  "index_of [] x = Inl ValueError"
| "index_of (y # ys) x =
     (if y = x then Inr 0 else bind_err (index_of ys x) (\<lambda>n. Inr (Suc n)))"

text \<open>
  The instance state of \<^verbatim>\<open>class SubsetPairs\<close> and its \<^verbatim>\<open>__init__\<close> (lines 14-20).
  \<^verbatim>\<open>self.elements\<close> is the list of the 1 x dimension matrices in Sage's order;
  \<^verbatim>\<open>self.field\<close> and \<^verbatim>\<open>self.space\<close> are determined by the two numbers, and
  \<^verbatim>\<open>self.basis\<close> is never read.
\<close>

record SubsetPairs =
  modulus_sp :: nat
  dimension :: nat
  elements_sp :: "matrix list"

definition SubsetPairs_init :: "sage \<Rightarrow> nat \<Rightarrow> nat \<Rightarrow> error + SubsetPairs" where
  "SubsetPairs_init lib p d =
     (if \<not> FiniteField_ok lib p then Inl ValueError
      else Inr \<lparr>modulus_sp = p, dimension = d, elements_sp = MatrixSpace lib p 1 d\<rparr>)"

text \<open>
  A generator is modelled by what it yields and how it ends: \<open>None\<close> when it is exhausted,
  \<open>Some e\<close> when it raises \<open>e\<close> after the values yielded so far.

  \<^verbatim>\<open>subsets\<close> (lines 24-32). \<open>in_order\<close> is the inner loop over \<^verbatim>\<open>range(size - 1)\<close> and
  returns the final value of \<^verbatim>\<open>passing\<close>.
\<close>

fun in_order :: "SubsetPairs \<Rightarrow> matrix \<Rightarrow> nat list \<Rightarrow> error + bool" where
  "in_order S elem [] = Inr True"
| "in_order S elem (i # rest) =
     bind_err (row_of (transpose_matrix elem) i) (\<lambda>c0.
     bind_err (index_of (elements_sp S) (Matrix c0)) (\<lambda>a.
     bind_err (row_of (transpose_matrix elem) (i + 1)) (\<lambda>c1.
     bind_err (index_of (elements_sp S) (Matrix c1)) (\<lambda>b.
       if a \<ge> b then Inr False else in_order S elem rest))))"

fun subsets_loop :: "SubsetPairs \<Rightarrow> nat \<Rightarrow> matrix list \<Rightarrow> matrix list \<times> error option" where
  "subsets_loop S sz [] = ([], None)"
| "subsets_loop S sz (elem # rest) =
     (case in_order S elem [0..<sz - 1] of
        Inl e \<Rightarrow> ([], Some e)
      | Inr passing \<Rightarrow>
          (case subsets_loop S sz rest of
             (ys, r) \<Rightarrow> (if passing = True then elem # ys else ys, r)))"

definition subsets :: "sage \<Rightarrow> SubsetPairs \<Rightarrow> nat \<Rightarrow> matrix list \<times> error option" where
  "subsets lib S sz = subsets_loop S sz (MatrixSpace lib (modulus_sp S) (dimension S) sz)"

text \<open>
  \<^verbatim>\<open>firstsets\<close> (lines 36-39) and \<^verbatim>\<open>secondsets\<close> (lines 41-44) consume \<^verbatim>\<open>subsets\<close>;
  the last argument of the loops is the way in which \<^verbatim>\<open>subsets\<close> ended.
  \<^verbatim>\<open>elem.columns()[0]\<close> raises IndexError on a matrix without columns.
\<close>

definition first_column_zero :: "matrix \<Rightarrow> error + bool" where
  "first_column_zero elem =
     bind_err (subscript (columns elem) 0) (\<lambda>c. Inr (c = zero_times c))"

fun firstsets_loop ::
  "sage \<Rightarrow> SubsetPairs \<Rightarrow> nat \<Rightarrow> matrix list \<Rightarrow> error option \<Rightarrow> matrix list \<times> error option" where
  "firstsets_loop lib S sz [] r = ([], r)"
| "firstsets_loop lib S sz (elem # rest) r =
     (case first_column_zero elem of
        Inl e \<Rightarrow> ([], Some e)
      | Inr z \<Rightarrow>
          (case firstsets_loop lib S sz rest r of
             (ys, r') \<Rightarrow>
               (if z \<and> rref lib elem = elem \<and> rank lib elem = min sz (dimension S)
                then elem # ys else ys, r')))"

definition firstsets :: "sage \<Rightarrow> SubsetPairs \<Rightarrow> nat \<Rightarrow> matrix list \<times> error option" where
  "firstsets lib S sz =
     (case subsets lib S sz of (xs, r) \<Rightarrow> firstsets_loop lib S sz xs r)"

fun secondsets_loop :: "matrix list \<Rightarrow> error option \<Rightarrow> matrix list \<times> error option" where
  "secondsets_loop [] r = ([], r)"
| "secondsets_loop (elem # rest) r =
     (case first_column_zero elem of
        Inl e \<Rightarrow> ([], Some e)
      | Inr z \<Rightarrow>
          (case secondsets_loop rest r of
             (ys, r') \<Rightarrow> (if z then elem # ys else ys, r')))"

definition secondsets :: "sage \<Rightarrow> SubsetPairs \<Rightarrow> nat \<Rightarrow> matrix list \<times> error option" where
  "secondsets lib S sz = (case subsets lib S sz of (xs, r) \<Rightarrow> secondsets_loop xs r)"

text \<open>\<^verbatim>\<open>loghadamard\<close> (lines 46-47).\<close>

definition loghadamard :: "SubsetPairs \<Rightarrow> matrix \<Rightarrow> matrix \<Rightarrow> error + matrix" where
  "loghadamard S E B = matrix_mul (transpose_matrix E) B"

text \<open>
  \<^verbatim>\<open>row_difference\<close> (lines 49-60). The dictionary \<open>counters\<close> has the keys
  \<open>0, ..., modulus - 1\<close>. The first loop runs over the entries of the difference vector and
  reads \<^verbatim>\<open>difference_vector[entry]\<close>: the entry is used as a position in the list, and
  the value found at that position is the one counted. The second loop compares
  neighbouring counters and returns False at the first pair that differs.
\<close>

fun init_counters :: "nat list \<Rightarrow> (nat \<rightharpoonup> nat) \<Rightarrow> (nat \<rightharpoonup> nat)" where
  "init_counters [] counters = counters"
| "init_counters (i # rest) counters = init_counters rest (counters(i \<mapsto> 0))"

fun tally :: "nat list \<Rightarrow> nat list \<Rightarrow> (nat \<rightharpoonup> nat) \<Rightarrow> error + (nat \<rightharpoonup> nat)" where
  "tally difference_vector [] counters = Inr counters"
| "tally difference_vector (entry # rest) counters =
     bind_err (subscript difference_vector entry) (\<lambda>val.
       case counters val of
         None \<Rightarrow> Inl KeyError
       | Some c \<Rightarrow> tally difference_vector rest (counters(val \<mapsto> c + 1)))"

fun compare_counters :: "(nat \<rightharpoonup> nat) \<Rightarrow> nat list \<Rightarrow> error + bool" where
  "compare_counters counters [] = Inr True"
| "compare_counters counters (i # rest) =
     (case counters i of
        None \<Rightarrow> Inl KeyError
      | Some c0 \<Rightarrow>
          (case counters (i + 1) of
             None \<Rightarrow> Inl KeyError
           | Some c1 \<Rightarrow> if c0 \<noteq> c1 then Inr False else compare_counters counters rest))"

definition row_difference :: "SubsetPairs \<Rightarrow> vector \<Rightarrow> vector \<Rightarrow> error + bool" where
  "row_difference S row0 row1 =
     bind_err (vector_sub row0 row1) (\<lambda>d.
     bind_err (tally (coords d) (coords d) (init_counters [0..<modulus_sp S] Map.empty))
       (\<lambda>counters. compare_counters counters [0..<modulus_sp S - 1]))"

text \<open>
  \<^verbatim>\<open>runtest\<close> (lines 63-75). The two outer loops run over \<^verbatim>\<open>S.firstsets(size)\<close> and
  \<^verbatim>\<open>S.secondsets(size)\<close>, where \<^verbatim>\<open>S\<close> is the module's global variable (line 78), not
  \<^verbatim>\<open>self\<close>; the global is the argument \<open>S\<close> of the model and the receiver is \<open>self\<close>.
  What the method prints is its result: \<open>Rejected\<close> for line 70, \<open>Candidate\<close> for lines
  74-75.
\<close>

datatype printed = Rejected vector vector vector | Candidate matrix matrix matrix

fun row_pairs_loop ::
  "SubsetPairs \<Rightarrow> matrix \<Rightarrow> (nat \<times> nat) list \<Rightarrow> error + (vector \<times> vector \<times> vector) option" where
  "row_pairs_loop self H [] = Inr None"
| "row_pairs_loop self H ((i, j) # rest) =
     (if i \<noteq> j
      then bind_err (row_of H i) (\<lambda>ri.
           bind_err (row_of H j) (\<lambda>rj.
           bind_err (row_difference self ri rj) (\<lambda>balanced.
             if balanced = False
             then bind_err (vector_sub ri rj) (\<lambda>d. Inr (Some (ri, rj, d)))
             else row_pairs_loop self H rest)))
      else row_pairs_loop self H rest)"

definition row_pairs :: "nat \<Rightarrow> (nat \<times> nat) list" where
  "row_pairs sz = concat (map (\<lambda>i. map (\<lambda>j. (i, j)) [0..<sz]) [0..<sz])"

fun runtest_inner ::
  "SubsetPairs \<Rightarrow> nat \<Rightarrow> matrix \<Rightarrow> matrix list \<Rightarrow> error option \<Rightarrow> printed list \<times> error option" where
  "runtest_inner self sz elem0 [] r = ([], r)"
| "runtest_inner self sz elem0 (elem1 # rest) r =
     (case loghadamard self elem0 elem1 of
        Inl e \<Rightarrow> ([], Some e)
      | Inr H \<Rightarrow>
          (case row_pairs_loop self H (row_pairs sz) of
             Inl e \<Rightarrow> ([], Some e)
           | Inr failing \<Rightarrow>
               (case runtest_inner self sz elem0 rest r of
                  (out, r') \<Rightarrow>
                    ((case failing of
                        None \<Rightarrow> Candidate elem0 elem1 H
                      | Some (ri, rj, d) \<Rightarrow> Rejected ri rj d) # out, r'))))"

fun runtest_outer ::
  "SubsetPairs \<Rightarrow> nat \<Rightarrow> matrix list \<Rightarrow> error option \<Rightarrow> matrix list \<times> error option
     \<Rightarrow> printed list \<times> error option" where
  "runtest_outer self sz [] r second = ([], r)"
| "runtest_outer self sz (elem0 # rest) r second =
     (case runtest_inner self sz elem0 (fst second) (snd second) of
        (out, Some e) \<Rightarrow> (out, Some e)
      | (out, None) \<Rightarrow>
          (case runtest_outer self sz rest r second of
             (out', r') \<Rightarrow> (out @ out', r')))"

definition runtest :: "sage \<Rightarrow> SubsetPairs \<Rightarrow> SubsetPairs \<Rightarrow> nat \<Rightarrow> printed list \<times> error option" where
  "runtest lib S self sz =
     (case firstsets lib S sz of
        (first, r) \<Rightarrow> runtest_outer self sz first r (secondsets lib S sz))"

text \<open>
  The specification's notions for the subsets: the index of a point in the fixed
  enumeration order, the columns of a matrix as points, columns that increase strictly,
  a first column that is the zero point, the two named types of subsets, and the
  row test that tallies the entries of the difference vector by their value.
  \<open>space_listed\<close> says that the two enumerations of the collaborator fit together: every
  matrix listed for \<open>sz\<close> columns has \<open>sz\<close> columns, and each of them is in the list of
  points.
\<close>

definition position :: "'a list \<Rightarrow> 'a \<Rightarrow> nat" where
  "position xs x = length (takeWhile (\<lambda>y. y \<noteq> x) xs)"

definition column_point :: "matrix \<Rightarrow> nat \<Rightarrow> matrix" where
  "column_point M i =
     \<lparr>base = base M, nrows = 1, ncols = length (entries M),
      entries = [map (\<lambda>r. r ! i) (entries M)]\<rparr>"

definition zero_point :: "nat \<Rightarrow> nat \<Rightarrow> matrix" where
  "zero_point p d = \<lparr>base = p, nrows = 1, ncols = d, entries = [replicate d 0]\<rparr>"

definition strictly_increasing :: "SubsetPairs \<Rightarrow> nat \<Rightarrow> matrix \<Rightarrow> bool" where
  "strictly_increasing S sz M =
     list_all (\<lambda>i. position (elements_sp S) (column_point M i)
                    < position (elements_sp S) (column_point M (i + 1)))
              [0..<sz - 1]"

definition second_type :: "matrix \<Rightarrow> bool" where
  "second_type M =
     (0 < ncols M \<and> column_point M 0 = zero_point (base M) (length (entries M)))"

definition first_type :: "sage \<Rightarrow> SubsetPairs \<Rightarrow> nat \<Rightarrow> matrix \<Rightarrow> bool" where
  "first_type lib S sz M =
     (second_type M \<and> rref lib M = M \<and> rank lib M = min sz (dimension S))"

definition space_listed :: "sage \<Rightarrow> SubsetPairs \<Rightarrow> nat \<Rightarrow> bool" where
  "space_listed lib S sz =
     list_all (\<lambda>M. ncols M = sz
                 \<and> list_all (\<lambda>i. column_point M i \<in> set (elements_sp S)) [0..<sz])
              (MatrixSpace lib (modulus_sp S) (dimension S) sz)"

definition row_difference_spec :: "nat \<Rightarrow> vector \<Rightarrow> vector \<Rightarrow> error + bool" where
  "row_difference_spec p row0 row1 =
     bind_err (vector_sub row0 row1) (\<lambda>d.
       Inr (list_all (\<lambda>i. count_list (coords d) i = count_list (coords d) 0) [0..<p]))"

section \<open>A concrete collaborator\<close>

text \<open>
  For runs on concrete inputs the parameters are instantiated: the matrices of a space
  are listed by weight (the sum of the entries) and, within a weight, in decreasing
  lexicographic order of the entries read row by row; the echelon form and the rank are
  computed by Gauss-Jordan elimination over \<open>Z_p\<close>, \<open>p\<close> prime.
\<close>

fun all_vectors :: "nat \<Rightarrow> nat \<Rightarrow> nat list list" where
  "all_vectors p 0 = [[]]"
| "all_vectors p (Suc n) = concat (map (\<lambda>x. map ((#) x) (all_vectors p n)) [0..<p])"

definition by_weight :: "nat \<Rightarrow> nat \<Rightarrow> nat list list" where
  "by_weight p n =
     concat (map (\<lambda>w. filter (\<lambda>v. sum_list v = w) (rev (all_vectors p n)))
                 [0..<(p - 1) * n + 1])"

fun chop :: "nat \<Rightarrow> nat \<Rightarrow> 'a list \<Rightarrow> 'a list list" where
  "chop 0 c xs = []"
| "chop (Suc r) c xs = take c xs # chop r c (drop c xs)"

definition enum_MatrixSpace :: "nat \<Rightarrow> nat \<Rightarrow> nat \<Rightarrow> matrix list" where
  "enum_MatrixSpace p r c =
     map (\<lambda>v. \<lparr>base = p, nrows = r, ncols = c, entries = chop r c v\<rparr>) (by_weight p (r * c))"

definition inv_mod :: "nat \<Rightarrow> nat \<Rightarrow> nat" where
  "inv_mod p a = (case filter (\<lambda>x. (a * x) mod p = 1) [1..<p] of [] \<Rightarrow> 0 | x # rest \<Rightarrow> x)"

definition eliminate :: "nat \<Rightarrow> nat \<Rightarrow> nat list \<Rightarrow> nat list \<Rightarrow> nat list" where
  "eliminate p c pivot r = map2 (\<lambda>x y. field_sub p x ((r ! c * y) mod p)) r pivot"

fun gauss_jordan ::
  "nat \<Rightarrow> nat list list \<Rightarrow> nat list list \<Rightarrow> nat list \<Rightarrow> nat list list \<times> nat list list" where
  "gauss_jordan p reduced rest [] = (reduced, rest)"
| "gauss_jordan p reduced rest (c # cs) =
     (case filter (\<lambda>r. r ! c \<noteq> 0) rest of
        [] \<Rightarrow> gauss_jordan p reduced rest cs
      | r # others \<Rightarrow>
          (let pivot = map (\<lambda>x. (inv_mod p (r ! c) * x) mod p) r
           in gauss_jordan p (map (eliminate p c pivot) reduced @ [pivot])
                (map (eliminate p c pivot) (remove1 r rest)) cs))"

definition gj_rref :: "matrix \<Rightarrow> matrix" where
  "gj_rref M =
     (case gauss_jordan (base M) [] (entries M) [0..<ncols M] of
        (reduced, rest) \<Rightarrow> M\<lparr>entries := reduced @ rest\<rparr>)"

definition gj_rank :: "matrix \<Rightarrow> nat" where
  "gj_rank M = length (fst (gauss_jordan (base M) [] (entries M) [0..<ncols M]))"

definition sage_model :: sage where
  "sage_model =
     \<lparr>FiniteField_ok = prime_order, MatrixSpace = enum_MatrixSpace,
      rref = gj_rref, rank = gj_rank\<rparr>"

text \<open>
  Line 78 of the module, \<^verbatim>\<open>S = SubsetPairs(2,3)\<close>, and a second instance,
  \<^verbatim>\<open>SubsetPairs(2,1)\<close>, both over the concrete collaborator.
\<close>

definition module_S :: SubsetPairs where
  "module_S = \<lparr>modulus_sp = 2, dimension = 3, elements_sp = enum_MatrixSpace 2 1 3\<rparr>"

definition line_pairs :: SubsetPairs where
  "line_pairs = \<lparr>modulus_sp = 2, dimension = 1, elements_sp = enum_MatrixSpace 2 1 1\<rparr>"

section \<open>Properties of the balance check\<close>

lemma is_balanced_loop_iff:
  "is_balanced_loop V q rng = (\<forall>i\<in>set rng. count_list V i = q)"
  by (induction rng) auto

lemma is_balanced_iff:
  "is_balanced S v = (\<forall>i<modulus S. count_list v i = quotient_bv S)"
  by (auto simp: is_balanced_def is_balanced_loop_iff)






text \<open>
  C9, as stated: a sequence of the wrong length is rejected with InvalidInput. The
  specification's checker does that on the sequence (0, 1, 0) for modulus 2 and quotient
  2; the code returns False there, an ordinary result.
\<close>

theorem is_balanced_no_InvalidInput:
  "is_balanced_spec 2 2 [0, 1, 0] = Inl InvalidInput
   \<and> (Inr (is_balanced \<lparr>size_bv = 4, modulus = 2, quotient_bv = 2\<rparr> [0, 1, 0]) :: error + bool)
       = Inr False"
  by code_simp

text \<open>
  C9, amended: whatever the length of the sequence, and so also when it is not
  \<open>modulus * quotient\<close>, the check raises nothing and returns the count-based answer:
  True exactly when every value below the modulus occurs \<open>quotient\<close> times. Where the
  length is right, this is the answer of the specification's checker.
\<close>

theorem is_balanced_count_based:
  "(length v \<noteq> modulus S * quotient_bv S \<longrightarrow>
      is_balanced S v = (\<forall>i<modulus S. count_list v i = quotient_bv S))
   \<and> (length v = modulus S * quotient_bv S \<longrightarrow>
      is_balanced_spec (modulus S) (quotient_bv S) v = Inr (is_balanced S v))"
  by (auto simp: is_balanced_iff is_balanced_spec_def list_all_iff)

theorem is_balanced_count_based_witness:
  "length [0, 1, 0 :: nat] \<noteq> 2 * 2
   \<and> is_balanced \<lparr>size_bv = 4, modulus = 2, quotient_bv = 2\<rparr> [0, 1, 0]
       = (\<forall>i<2. count_list [0, 1, 0 :: nat] i = 2)
   \<and> length [0, 1, 0, 1 :: nat] = 2 * 2
   \<and> is_balanced_spec 2 2 [0, 1, 0, 1]
       = Inr (is_balanced \<lparr>size_bv = 4, modulus = 2, quotient_bv = 2\<rparr> [0, 1, 0, 1])"
  using is_balanced_count_based
          [of "[0, 1, 0]" "\<lparr>size_bv = 4, modulus = 2, quotient_bv = 2\<rparr>"]
        is_balanced_count_based
          [of "[0, 1, 0, 1]" "\<lparr>size_bv = 4, modulus = 2, quotient_bv = 2\<rparr>"]
  by simp


section \<open>Properties of construction and differencing\<close>

lemma difference_loop_in_range:
  assumes "\<forall>i\<in>set rng. i < length v0 \<and> i < length v1"
  shows "difference_loop p v0 v1 rng = Inr (map (\<lambda>i. field_sub p (v0 ! i) (v1 ! i)) rng)"
  using assms by (induction rng) (simp_all add: subscript_def)

lemma map_nth_map2:
  assumes "length v0 = n" and "length v1 = n"
  shows "map (\<lambda>i. f (v0 ! i) (v1 ! i)) [0..<n] = map2 f v0 v1"
  using assms by (intro nth_equalityI) simp_all

lemma field_sub_self:
  assumes "0 < p"
  shows "field_sub p a a = 0"
proof -
  have "a mod p \<le> a" by simp
  moreover have "a mod p < p" using assms by simp
  ultimately have "a + (p - a mod p) = (a - a mod p) + p" by simp
  also have "\<dots> = p * (a div p) + p" by (simp add: minus_mod_eq_mult_div)
  finally show ?thesis by (simp add: field_sub_def)
qed

lemma count_list_replicate_same:
  "count_list (replicate n x) x = n"
  by (induction n) simp_all



text \<open>
  C6. The sentinel absorbs on either side, for every other argument. On two vectors of
  length \<open>size\<close> the call returns (it does not raise): the component-wise subtraction
  when \<open>is_balanced\<close> accepts it, the sentinel when it does not.
\<close>

theorem difference_total:
  "difference S Unbalanced x = Inr Unbalanced
   \<and> difference S x Unbalanced = Inr Unbalanced
   \<and> (length v0 = size_bv S \<and> length v1 = size_bv S \<longrightarrow>
        difference S (Vec v0) (Vec v1)
          = Inr (if is_balanced S (componentwise_sub (modulus S) v0 v1)
                 then Vec (componentwise_sub (modulus S) v0 v1) else Unbalanced))"
proof (intro conjI impI)
  show "difference S Unbalanced x = Inr Unbalanced" by simp
  show "difference S x Unbalanced = Inr Unbalanced" by (cases x) simp_all
next
  assume len: "length v0 = size_bv S \<and> length v1 = size_bv S"
  then have "difference_loop (modulus S) v0 v1 [0..<size_bv S]
               = Inr (map (\<lambda>i. field_sub (modulus S) (v0 ! i) (v1 ! i)) [0..<size_bv S])"
    by (intro difference_loop_in_range) simp
  also have "map (\<lambda>i. field_sub (modulus S) (v0 ! i) (v1 ! i)) [0..<size_bv S]
               = componentwise_sub (modulus S) v0 v1"
    unfolding componentwise_sub_def using len by (intro map_nth_map2) simp_all
  finally show "difference S (Vec v0) (Vec v1)
          = Inr (if is_balanced S (componentwise_sub (modulus S) v0 v1)
                 then Vec (componentwise_sub (modulus S) v0 v1) else Unbalanced)"
    by simp
qed

theorem difference_total_witness:
  "difference \<lparr>size_bv = 4, modulus = 2, quotient_bv = 2\<rparr> Unbalanced (Vec [0, 0, 1, 1])
     = Inr Unbalanced
   \<and> difference \<lparr>size_bv = 4, modulus = 2, quotient_bv = 2\<rparr> (Vec [0, 0, 1, 1]) Unbalanced
     = Inr Unbalanced
   \<and> difference \<lparr>size_bv = 4, modulus = 2, quotient_bv = 2\<rparr> (Vec [0, 0, 1, 1]) (Vec [0, 1, 1, 0])
     = Inr (Vec [0, 1, 0, 1])
   \<and> difference \<lparr>size_bv = 4, modulus = 2, quotient_bv = 2\<rparr> (Vec [0, 0, 1, 1]) (Vec [0, 0, 1, 1])
     = Inr Unbalanced"
  using difference_total [of "\<lparr>size_bv = 4, modulus = 2, quotient_bv = 2\<rparr>"
                             "Vec [0, 0, 1, 1]" "[0, 0, 1, 1]" "[0, 1, 1, 0]"]
        difference_total [of "\<lparr>size_bv = 4, modulus = 2, quotient_bv = 2\<rparr>"
                             "Vec [0, 0, 1, 1]" "[0, 0, 1, 1]" "[0, 0, 1, 1]"]
  by (simp add: componentwise_sub_def field_sub_def is_balanced_def upt_rec)


text \<open>
  C7, as stated for every modulus above 1: the configuration of size 0 and modulus 2 is
  constructed without error, its only balanced vector is the empty one, and the difference
  of the empty vector with itself is the empty vector, which \<open>is_balanced\<close> accepts
  (both counts are 0, the quotient).
\<close>

theorem difference_self_size_zero:
  "BalancedVectors_init prime_order 0 2 = Inr \<lparr>size_bv = 0, modulus = 2, quotient_bv = 0\<rparr>
   \<and> elements \<lparr>size_bv = 0, modulus = 2, quotient_bv = 0\<rparr> = [[]]
   \<and> balanced_vector \<lparr>size_bv = 0, modulus = 2, quotient_bv = 0\<rparr> []
   \<and> difference \<lparr>size_bv = 0, modulus = 2, quotient_bv = 0\<rparr> (Vec []) (Vec []) = Inr (Vec [])"
  by (simp add: BalancedVectors_init_def prime_order_def elements_def balanced_vector_def
                is_balanced_def upt_rec)

text \<open>
  C7, amended: in every constructed configuration with modulus above 1 and positive size
  (size 4 and modulus 2 among them), the difference of a vector of length \<open>size\<close>, so of
  every balanced vector, with itself is the sentinel: the difference is the all-zero
  vector, in which 0 occurs \<open>size\<close> times and not \<open>size div modulus\<close> times.
\<close>

theorem difference_self_Unbalanced:
  assumes "BalancedVectors_init field_ok sz m = Inr S"
    and "1 < m" and "0 < sz" and "length v = sz"
  shows "difference S (Vec v) (Vec v) = Inr Unbalanced"
proof -
  from assms(1) have S: "S = \<lparr>size_bv = sz, modulus = m, quotient_bv = sz div m\<rparr>"
    by (auto simp: BalancedVectors_init_def split: if_splits)
  have "difference_loop m v v [0..<sz]
          = Inr (map (\<lambda>i. field_sub m (v ! i) (v ! i)) [0..<sz])"
    using assms(4) by (intro difference_loop_in_range) simp
  also have "map (\<lambda>i. field_sub m (v ! i) (v ! i)) [0..<sz] = replicate sz 0"
    using assms(2) by (simp add: field_sub_self map_replicate_const)
  finally have loop: "difference_loop m v v [0..<sz] = Inr (replicate sz 0)" .
  have "sz div m < sz"
    using assms(2,3) by simp
  then have "count_list (replicate sz (0::nat)) 0 \<noteq> sz div m"
    by (simp add: count_list_replicate_same)
  moreover have "0 < m"
    using assms(2) by simp
  ultimately have "\<not> is_balanced S (replicate sz 0)"
    unfolding is_balanced_iff S by (simp only: BalancedVectors.simps) blast
  then show ?thesis
    using loop by (simp add: S)
qed

theorem difference_self_Unbalanced_witness:
  "BalancedVectors_init prime_order 4 2 = Inr \<lparr>size_bv = 4, modulus = 2, quotient_bv = 2\<rparr>
   \<and> (1::nat) < 2 \<and> (0::nat) < 4 \<and> length [0, 1, 1, 0 :: nat] = 4
   \<and> difference \<lparr>size_bv = 4, modulus = 2, quotient_bv = 2\<rparr> (Vec [0, 1, 1, 0]) (Vec [0, 1, 1, 0])
       = Inr Unbalanced"
proof -
  have c: "BalancedVectors_init prime_order 4 2
             = Inr \<lparr>size_bv = 4, modulus = 2, quotient_bv = 2\<rparr>"
    by (simp add: BalancedVectors_init_def prime_order_def)
  show ?thesis
    using c difference_self_Unbalanced [OF c, of "[0, 1, 1, 0]"] by simp
qed


section \<open>The enumeration of balanced vectors\<close>














section \<open>The enumeration of subsets\<close>

lemma index_of_position:
  "x \<in> set xs \<Longrightarrow> index_of xs x = Inr (position xs x)"
  by (induction xs) (auto simp: position_def bind_err_def)

lemma row_of_transpose:
  assumes "i < ncols M"
  shows "row_of (transpose_matrix M) i
           = Inr \<lparr>vbase = base M, coords = map (\<lambda>r. r ! i) (entries M)\<rparr>"
  using assms by (simp add: row_of_def transpose_matrix_def subscript_def bind_err_def)

lemma Matrix_column:
  "Matrix \<lparr>vbase = base M, coords = map (\<lambda>r. r ! i) (entries M)\<rparr> = column_point M i"
  by (simp add: Matrix_def column_point_def)

lemma in_order_listed:
  assumes "\<forall>i\<in>set rng. i + 1 < ncols M"
    and "\<forall>i<ncols M. column_point M i \<in> set (elements_sp S)"
  shows "in_order S M rng
           = Inr (list_all (\<lambda>i. position (elements_sp S) (column_point M i)
                                 < position (elements_sp S) (column_point M (i + 1))) rng)"
  using assms(1)
proof (induction rng)
  case Nil
  then show ?case by simp
next
  case (Cons i rng)
  then have i: "i < ncols M" "i + 1 < ncols M" by auto
  have a: "index_of (elements_sp S) (column_point M i)
             = Inr (position (elements_sp S) (column_point M i))"
    using assms(2) i(1) by (intro index_of_position) simp
  have b: "index_of (elements_sp S) (column_point M (i + 1))
             = Inr (position (elements_sp S) (column_point M (i + 1)))"
    using assms(2) i(2) by (intro index_of_position) simp
  have "in_order S M (i # rng)
          = (if position (elements_sp S) (column_point M i)
                  \<ge> position (elements_sp S) (column_point M (i + 1))
             then Inr False else in_order S M rng)"
    using i a b by (simp add: row_of_transpose Matrix_column bind_err_def)
  then show ?case using Cons by auto
qed

lemma subsets_loop_listed:
  assumes "list_all (\<lambda>M. ncols M = sz
                 \<and> list_all (\<lambda>i. column_point M i \<in> set (elements_sp S)) [0..<sz]) Ms"
  shows "subsets_loop S sz Ms = (filter (strictly_increasing S sz) Ms, None)"
  using assms
proof (induction Ms)
  case Nil
  then show ?case by simp
next
  case (Cons M Ms)
  then have n: "ncols M = sz" and pts: "\<forall>i<ncols M. column_point M i \<in> set (elements_sp S)"
    by (auto simp: list_all_iff)
  have "in_order S M [0..<sz - 1] = Inr (strictly_increasing S sz M)"
    unfolding strictly_increasing_def using n pts by (intro in_order_listed) auto
  then show ?case using Cons by simp
qed

lemma first_column_zero_eq:
  assumes "0 < ncols M"
  shows "first_column_zero M = Inr (second_type M)"
  using assms
  by (auto simp: first_column_zero_def columns_def transpose_matrix_def subscript_def
                bind_err_def zero_times_def second_type_def column_point_def zero_point_def
                map_replicate_const upt_conv_Cons)


lemma firstsets_loop_columns:
  assumes "list_all (\<lambda>M. 0 < ncols M) xs"
  shows "firstsets_loop lib S sz xs r = (filter (first_type lib S sz) xs, r)"
  using assms
  by (induction xs) (simp_all add: first_column_zero_eq first_type_def)

lemma secondsets_loop_columns:
  assumes "list_all (\<lambda>M. 0 < ncols M) xs"
  shows "secondsets_loop xs r = (filter second_type xs, r)"
  using assms
  by (induction xs) (simp_all add: first_column_zero_eq)







section \<open>The concrete collaborator lists the spaces\<close>

text \<open>
  The concrete enumeration lists every matrix of the right shape with entries below \<open>p\<close>,
  so it satisfies \<open>space_listed\<close> for every instance built on it and every size; the
  pair of matrices used below is among the subsets that the module's instance enumerates
  for size 4.
\<close>

lemma set_all_vectors:
  "set (all_vectors p n) = {v. length v = n \<and> (\<forall>x\<in>set v. x < p)}"
proof (induction n)
  case 0
  then show ?case by auto
next
  case (Suc n)
  show ?case
  proof (intro equalityI subsetI)
    fix v assume "v \<in> set (all_vectors p (Suc n))"
    then show "v \<in> {v. length v = Suc n \<and> (\<forall>x\<in>set v. x < p)}"
      using Suc by auto
  next
    fix v assume "v \<in> {v. length v = Suc n \<and> (\<forall>x\<in>set v. x < p)}"
    then obtain x w where v: "v = x # w" and "length w = n" and "x < p" and "\<forall>y\<in>set w. y < p"
      by (cases v) auto
    then have "w \<in> set (all_vectors p n)" using Suc by simp
    then show "v \<in> set (all_vectors p (Suc n))"
      using v \<open>x < p\<close> by auto
  qed
qed

lemma sum_list_bounded:
  "\<forall>x\<in>set v. x < p \<Longrightarrow> sum_list v \<le> (p - 1) * length (v::nat list)"
proof (induction v)
  case Nil
  then show ?case by simp
next
  case (Cons x v)
  then have "x \<le> p - 1" and "sum_list v \<le> (p - 1) * length v" by auto
  then have "x + sum_list v \<le> (p - 1) + (p - 1) * length v" by (rule add_mono)
  then show ?case by simp
qed

lemma set_by_weight:
  "set (by_weight p n) = {v. length v = n \<and> (\<forall>x\<in>set v. x < p)}"
proof -
  have "sum_list v \<in> set [0..<(p - 1) * n + 1]" if "v \<in> set (all_vectors p n)" for v
  proof -
    from that have "length v = n" and "\<forall>x\<in>set v. x < p"
      by (simp_all add: set_all_vectors)
    then have "sum_list v \<le> (p - 1) * n"
      using sum_list_bounded[of v p] by simp
    then have "sum_list v < (p - 1) * n + 1" by linarith
    then show ?thesis by (simp only: set_upt atLeastLessThan_iff le0 simp_thms)
  qed
  then have "set (by_weight p n) = set (all_vectors p n)"
    unfolding by_weight_def by (auto simp del: set_upt)
  then show ?thesis by (simp add: set_all_vectors)
qed

lemma chop_rows:
  "length v = r * c \<Longrightarrow>
     length (chop r c v) = r \<and> (\<forall>row\<in>set (chop r c v). length row = c \<and> set row \<subseteq> set v)"
proof (induction r arbitrary: v)
  case 0
  then show ?case by simp
next
  case (Suc r)
  then have "length (drop c v) = r * c" by simp
  from Suc.IH[OF this] show ?case
    using Suc.prems by (auto dest: in_set_takeD in_set_dropD)
qed

lemma sage_model_space_listed:
  "space_listed sage_model
     \<lparr>modulus_sp = p, dimension = d, elements_sp = enum_MatrixSpace p 1 d\<rparr> sz"
proof -
  have "ncols M = sz \<and> (\<forall>i<sz. column_point M i \<in> set (enum_MatrixSpace p 1 d))"
    if "M \<in> set (enum_MatrixSpace p d sz)" for M
  proof -
    from that obtain v where len: "length v = d * sz" and below: "\<forall>x\<in>set v. x < p"
      and M: "M = \<lparr>base = p, nrows = d, ncols = sz, entries = chop d sz v\<rparr>"
      by (auto simp: enum_MatrixSpace_def set_by_weight)
    have rows: "length (chop d sz v) = d"
      "\<And>row. row \<in> set (chop d sz v) \<Longrightarrow> length row = sz \<and> set row \<subseteq> set v"
      using chop_rows[OF len] by auto
    have "column_point M i \<in> set (enum_MatrixSpace p 1 d)" if i: "i < sz" for i
    proof -
      let ?w = "map (\<lambda>r. r ! i) (chop d sz v)"
      have "length ?w = 1 * d" using rows(1) by simp
      moreover have "\<forall>x\<in>set ?w. x < p"
        using rows(2) i below by (auto simp: subset_iff)
      ultimately have "?w \<in> set (by_weight p (1 * d))"
        by (simp add: set_by_weight)
      moreover have "chop 1 d ?w = [?w]" using rows(1) by (simp add: numeral_eq_Suc)
      ultimately have "\<lparr>base = p, nrows = 1, ncols = d, entries = [?w]\<rparr>
                         \<in> set (enum_MatrixSpace p 1 d)"
        unfolding enum_MatrixSpace_def by force
      then show ?thesis by (simp add: column_point_def M rows(1))
    qed
    then show ?thesis by (simp add: M)
  qed
  then show ?thesis
    by (simp add: space_listed_def sage_model_def list_all_iff)
qed

lemma typed_sets_listed:
  assumes "space_listed lib S sz" and "0 < sz"
  shows "firstsets lib S sz
           = (filter (first_type lib S sz)
                (filter (strictly_increasing S sz)
                   (MatrixSpace lib (modulus_sp S) (dimension S) sz)), None)"
    and "secondsets lib S sz
           = (filter second_type
                (filter (strictly_increasing S sz)
                   (MatrixSpace lib (modulus_sp S) (dimension S) sz)), None)"
proof -
  let ?xs = "filter (strictly_increasing S sz) (MatrixSpace lib (modulus_sp S) (dimension S) sz)"
  have sub: "subsets lib S sz = (?xs, None)"
    unfolding subsets_def using assms(1)
    by (intro subsets_loop_listed) (simp add: space_listed_def)
  have pos: "list_all (\<lambda>M. 0 < ncols M) ?xs"
    using assms by (auto simp: space_listed_def list_all_iff)
  show "firstsets lib S sz = (filter (first_type lib S sz) ?xs, None)"
    using sub firstsets_loop_columns[OF pos] by (simp add: firstsets_def)
  show "secondsets lib S sz = (filter second_type ?xs, None)"
    using sub secondsets_loop_columns[OF pos] by (simp add: secondsets_def)
qed

lemma enum_MatrixSpace_member:
  assumes "length v = r * c" and "\<forall>x\<in>set v. x < p"
  shows "\<lparr>base = p, nrows = r, ncols = c, entries = chop r c v\<rparr> \<in> set (enum_MatrixSpace p r c)"
  using assms unfolding enum_MatrixSpace_def by (simp add: set_by_weight)

lemma demo_pair_tested:
  "\<lparr>base = 2, nrows = 3, ncols = 4, entries = [[0, 1, 0, 0], [0, 0, 1, 0], [0, 0, 0, 1]]\<rparr>
     \<in> set (fst (firstsets sage_model module_S 4))
   \<and> \<lparr>base = 2, nrows = 3, ncols = 4, entries = [[0, 1, 0, 1], [0, 0, 0, 0], [0, 0, 1, 1]]\<rparr>
     \<in> set (fst (secondsets sage_model module_S 4))"
proof -
  let ?E = "\<lparr>base = 2, nrows = 3, ncols = 4, entries = [[0, 1, 0, 0], [0, 0, 1, 0], [0, 0, 0, 1]]\<rparr>"
  let ?B = "\<lparr>base = 2, nrows = 3, ncols = 4, entries = [[0, 1, 0, 1], [0, 0, 0, 0], [0, 0, 1, 1]]\<rparr>"
  have listed: "space_listed sage_model module_S 4"
    unfolding module_S_def by (rule sage_model_space_listed)
  have space: "MatrixSpace sage_model (modulus_sp module_S) (dimension module_S) 4
                 = enum_MatrixSpace 2 3 4"
    by (simp add: sage_model_def module_S_def)
  have cE: "chop 3 4 [0, 1, 0, 0, 0, 0, 1, 0, 0, 0, 0, 1 :: nat]
              = [[0, 1, 0, 0], [0, 0, 1, 0], [0, 0, 0, 1]]" by code_simp
  have cB: "chop 3 4 [0, 1, 0, 1, 0, 0, 0, 0, 0, 0, 1, 1 :: nat]
              = [[0, 1, 0, 1], [0, 0, 0, 0], [0, 0, 1, 1]]" by code_simp
  have "\<lparr>base = 2, nrows = 3, ncols = 4,
         entries = chop 3 4 [0, 1, 0, 0, 0, 0, 1, 0, 0, 0, 0, 1]\<rparr>
          \<in> set (enum_MatrixSpace 2 3 4)"
    by (rule enum_MatrixSpace_member) simp_all
  then have E: "?E \<in> set (enum_MatrixSpace 2 3 4)"
    by (simp only: cE)
  have "\<lparr>base = 2, nrows = 3, ncols = 4,
         entries = chop 3 4 [0, 1, 0, 1, 0, 0, 0, 0, 0, 0, 1, 1]\<rparr>
          \<in> set (enum_MatrixSpace 2 3 4)"
    by (rule enum_MatrixSpace_member) simp_all
  then have B: "?B \<in> set (enum_MatrixSpace 2 3 4)"
    by (simp only: cB)
  have iE: "strictly_increasing module_S 4 ?E" by code_simp
  have iB: "strictly_increasing module_S 4 ?B" by code_simp
  have tE: "first_type sage_model module_S 4 ?E" by code_simp
  have tB: "second_type ?B" by code_simp
  show ?thesis
    using typed_sets_listed[OF listed, of ] E B iE iB tE tB
    by (simp add: space)
qed

section \<open>The row test and the search\<close>

text \<open>
  C2. The claim is that \<open>row_difference\<close> tallies the entries of the difference vector by
  their value. The matrices \<open>E\<close> (columns 0, e1, e2, e3) and \<open>B\<close> (columns 0, e1, e3,
  e1 + e3) over \<open>Z_2\<close> are a first-type and a second-type subset of the module's instance
  for size 4; rows 3 and 0 of their log-Hadamard matrix differ by
  (0, 0, 1, 1), in which 0 and 1 occur twice each, so the tally by value accepts. The code
  counts \<^verbatim>\<open>difference_vector[entry]\<close>, which is 0 for every entry here, finds the
  counters 4 and 0, and returns False.
\<close>

theorem row_difference_counts_positions:
  "\<lparr>base = 2, nrows = 3, ncols = 4, entries = [[0, 1, 0, 0], [0, 0, 1, 0], [0, 0, 0, 1]]\<rparr>
     \<in> set (fst (firstsets sage_model module_S 4))
   \<and> \<lparr>base = 2, nrows = 3, ncols = 4, entries = [[0, 1, 0, 1], [0, 0, 0, 0], [0, 0, 1, 1]]\<rparr>
     \<in> set (fst (secondsets sage_model module_S 4))
   \<and> loghadamard module_S
      \<lparr>base = 2, nrows = 3, ncols = 4, entries = [[0, 1, 0, 0], [0, 0, 1, 0], [0, 0, 0, 1]]\<rparr>
      \<lparr>base = 2, nrows = 3, ncols = 4, entries = [[0, 1, 0, 1], [0, 0, 0, 0], [0, 0, 1, 1]]\<rparr>
     = Inr \<lparr>base = 2, nrows = 4, ncols = 4,
            entries = [[0, 0, 0, 0], [0, 1, 0, 1], [0, 0, 0, 0], [0, 0, 1, 1]]\<rparr>
   \<and> row_of \<lparr>base = 2, nrows = 4, ncols = 4,
              entries = [[0, 0, 0, 0], [0, 1, 0, 1], [0, 0, 0, 0], [0, 0, 1, 1]]\<rparr> 3
     = Inr \<lparr>vbase = 2, coords = [0, 0, 1, 1]\<rparr>
   \<and> row_of \<lparr>base = 2, nrows = 4, ncols = 4,
              entries = [[0, 0, 0, 0], [0, 1, 0, 1], [0, 0, 0, 0], [0, 0, 1, 1]]\<rparr> 0
     = Inr \<lparr>vbase = 2, coords = [0, 0, 0, 0]\<rparr>
   \<and> vector_sub \<lparr>vbase = 2, coords = [0, 0, 1, 1]\<rparr> \<lparr>vbase = 2, coords = [0, 0, 0, 0]\<rparr>
     = Inr \<lparr>vbase = 2, coords = [0, 0, 1, 1]\<rparr>
   \<and> row_difference_spec 2
        \<lparr>vbase = 2, coords = [0, 0, 1, 1]\<rparr> \<lparr>vbase = 2, coords = [0, 0, 0, 0]\<rparr>
     = Inr True
   \<and> row_difference module_S
        \<lparr>vbase = 2, coords = [0, 0, 1, 1]\<rparr> \<lparr>vbase = 2, coords = [0, 0, 0, 0]\<rparr>
     = Inr False"
proof -
  have "loghadamard module_S
      \<lparr>base = 2, nrows = 3, ncols = 4, entries = [[0, 1, 0, 0], [0, 0, 1, 0], [0, 0, 0, 1]]\<rparr>
      \<lparr>base = 2, nrows = 3, ncols = 4, entries = [[0, 1, 0, 1], [0, 0, 0, 0], [0, 0, 1, 1]]\<rparr>
     = Inr \<lparr>base = 2, nrows = 4, ncols = 4,
            entries = [[0, 0, 0, 0], [0, 1, 0, 1], [0, 0, 0, 0], [0, 0, 1, 1]]\<rparr>"
    by code_simp
  moreover have "row_of \<lparr>base = 2, nrows = 4, ncols = 4,
              entries = [[0, 0, 0, 0], [0, 1, 0, 1], [0, 0, 0, 0], [0, 0, 1, 1]]\<rparr> 3
     = Inr \<lparr>vbase = 2, coords = [0, 0, 1, 1]\<rparr>"
    by code_simp
  moreover have "row_of \<lparr>base = 2, nrows = 4, ncols = 4,
              entries = [[0, 0, 0, 0], [0, 1, 0, 1], [0, 0, 0, 0], [0, 0, 1, 1]]\<rparr> 0
     = Inr \<lparr>vbase = 2, coords = [0, 0, 0, 0]\<rparr>"
    by code_simp
  moreover have "vector_sub \<lparr>vbase = 2, coords = [0, 0, 1, 1]\<rparr> \<lparr>vbase = 2, coords = [0, 0, 0, 0]\<rparr>
     = Inr \<lparr>vbase = 2, coords = [0, 0, 1, 1]\<rparr>"
    by code_simp
  moreover have "row_difference_spec 2
        \<lparr>vbase = 2, coords = [0, 0, 1, 1]\<rparr> \<lparr>vbase = 2, coords = [0, 0, 0, 0]\<rparr>
     = Inr True"
    by code_simp
  moreover have "row_difference module_S
        \<lparr>vbase = 2, coords = [0, 0, 1, 1]\<rparr> \<lparr>vbase = 2, coords = [0, 0, 0, 0]\<rparr>
     = Inr False"
    by code_simp
  ultimately show ?thesis
    using demo_pair_tested by (intro conjI) blast+
qed

text \<open>
  C3. The claim is that \<open>runtest\<close> searches the receiver's own subsets. With the module's
  global \<open>S = SubsetPairs(2,3)\<close> and the receiver \<open>SubsetPairs(2,1)\<close>, the call for size 2
  runs over the first-type subsets of the global, of which there are none, and prints
  nothing; over the receiver's own subsets it would report the pair \<open>E = B = (0 1)\<close>, whose
  two rows pass \<open>row_difference\<close> in both orders.
\<close>

theorem runtest_reads_global:
  "SubsetPairs_init sage_model 2 3 = Inr module_S
   \<and> SubsetPairs_init sage_model 2 1 = Inr line_pairs
   \<and> runtest sage_model module_S line_pairs 2 = ([], None)
   \<and> runtest sage_model line_pairs line_pairs 2
       = ([Candidate \<lparr>base = 2, nrows = 1, ncols = 2, entries = [[0, 1]]\<rparr>
                     \<lparr>base = 2, nrows = 1, ncols = 2, entries = [[0, 1]]\<rparr>
                     \<lparr>base = 2, nrows = 2, ncols = 2, entries = [[0, 0], [0, 1]]\<rparr>], None)"
  by code_simp

end
